theory Spec2Isabelle
  imports Main "HOL-Library.Multiset" "HOL-Library.Sublist"
begin

section \<open>Promises, the browser, observable effects\<close>

text \<open>
  The calendar connector (\<^verbatim>\<open>src/lib/googleCalendar.ts\<close>) is a chain of promises around the
  vendor library \<^verbatim>\<open>window.gapi\<close>. An \<^verbatim>\<open>async\<close> function is modelled by the state in which its
  promise settles: fulfilled with a value, rejected with a reason, or never settled
  (a callback that the vendor library never invokes, or an exception thrown inside such
  a callback, leaves the promise pending for ever).
\<close>

datatype 'a promise = Fulfilled 'a | Rejected string | Pending

text \<open>
  What the script element does after \<^verbatim>\<open>document.head.appendChild(script)\<close>: it fires
  \<^verbatim>\<open>onload\<close>, or \<^verbatim>\<open>onerror\<close> (with a reason), or nothing.
\<close>

datatype script_event = ScriptLoaded | ScriptError string | NoScriptEvent

text \<open>The \<^verbatim>\<open>GoogleUser\<close> that \<^verbatim>\<open>authInstance.signIn\<close> resolves to; only \<^verbatim>\<open>isSignedIn()\<close> is read.\<close>

record google_user =
  userIsSignedIn :: bool

text \<open>The argument of \<^verbatim>\<open>gapi.client.calendar.events.list\<close> as \<^verbatim>\<open>getEvents\<close> builds it.\<close>

record list_request =
  calendarId :: string
  timeMin :: string
  timeMax :: "string option"
  showDeleted :: bool
  singleEvents :: bool
  orderBy :: string

text \<open>
  The resource sent by \<^verbatim>\<open>createEvent\<close> and \<^verbatim>\<open>updateEvent\<close>: the object \<^verbatim>\<open>eventData\<close> of
  \<^verbatim>\<open>handleSubmit\<close> (CalendarEventModal.tsx, lines 109-129).
\<close>

record event_time =
  dateTime :: string
  timeZone :: string

record attendee =
  email :: string

record reminder_override =
  override_method :: string
  minutes :: int

record reminder_settings =
  useDefault :: bool
  overrides :: "reminder_override list"

record event_data =
  summary :: string
  data_description :: string
  start :: event_time
  end_ :: event_time
  data_attendees :: "attendee list"
  data_reminders :: reminder_settings
  data_location :: string

text \<open>
  The record \<^verbatim>\<open>CalendarEvent\<close> of \<^verbatim>\<open>@/types/communication\<close> (the type declaration is not
  among the sources; the fields are those \<^verbatim>\<open>handleSubmit\<close> writes and the effect reads).
  A \<^verbatim>\<open>Date\<close> is its time value in milliseconds since the epoch, \<open>None\<close> for an
  Invalid Date (time value NaN).
\<close>

type_synonym jsdate = "int option"

record calendar_event =
  event_id :: string
  event_title :: string
  event_description :: "string option"
  startDateTime :: jsdate
  endDateTime :: jsdate
  event_attendees :: "string list option"
  event_reminders :: "int list option"
  leadId :: "string option"
  googleEventId :: "string option"
  createdBy :: string
  event_createdAt :: jsdate
  event_updatedAt :: jsdate

text \<open>
  Every call that leaves the program is recorded, in order: calls into the vendor
  library, DOM insertion, console output and the callbacks of the form's parent.
\<close>

datatype effect =
    AppendScript string
  | GapiLoad string
  | Auth2Init
  | GetAuthInstance
  | AuthSignIn string
  | SessionGet
  | ClientInit
  | EventsInsert string event_data
  | EventsUpdate string string event_data
  | EventsList list_request
  | ConsoleError string string
  | PreventDefault
  | OnEventCreated calendar_event
  | OnEventUpdated calendar_event
  | OnOpenChange bool

text \<open>What the provider answers to insert and update; \<^verbatim>\<open>handleSubmit\<close> reads \<^verbatim>\<open>result.id\<close>.\<close>

record provider_response =
  response_id :: "string option"

text \<open>
  The browser and the vendor library as the connector meets them during one call: how
  each external request settles, the clock and the runtime's time zone (a fixed offset
  from UTC in minutes, east positive, with its IANA name and its display name).
  \<open>calendarApi\<close> says whether \<^verbatim>\<open>gapi.client.calendar\<close> is defined when the call is made
  (it is once a \<^verbatim>\<open>client.init\<close> with the discovery document has succeeded). \<open>'e\<close> is the provider's event representation,
  which the connector passes on untouched (\<^verbatim>\<open>any\<close> in the source); \<open>listResult\<close> is the
  field \<^verbatim>\<open>result.items\<close> of the response, \<open>None\<close> when it is absent.
\<close>

record 'e browser =
  scriptEvent :: script_event
  auth2Loaded :: bool
  auth2InitResult :: "unit promise"
  authSignInResult :: "google_user promise"
  sessionFlag :: bool
  clientLoaded :: bool
  clientInitResult :: "unit promise"
  calendarApi :: bool
  insertResult :: "provider_response promise"
  updateResult :: "provider_response promise"
  listResult :: "'e list option promise"
  now :: int
  tzOffset :: int
  tzName :: string
  tzDisplayName :: string

section \<open>Strings, numbers and dates of the runtime\<close>

text \<open>
  Decimal digits: the character of a digit \<open>0..9\<close> and the digit of a character
  (\<open>None\<close> for any other character).
\<close>

definition decimalDigits :: string where
  "decimalDigits = ''0123456789''"

definition digitChar :: "int \<Rightarrow> char" where
  "digitChar n = decimalDigits ! nat n"

fun position :: "'a \<Rightarrow> 'a list \<Rightarrow> int option" where
  "position c [] = None"
| "position c (x # xs) = (if c = x then Some 0 else map_option (\<lambda>i. i + 1) (position c xs))"

definition digitVal :: "char \<Rightarrow> int option" where
  "digitVal c = position c decimalDigits"

text \<open>A number as a field of fixed width, zero padded (its lowest digits).\<close>

definition pad2 :: "int \<Rightarrow> string" where
  "pad2 n = [digitChar (n div 10 mod 10), digitChar (n mod 10)]"

definition pad3 :: "int \<Rightarrow> string" where
  "pad3 n = digitChar (n div 100 mod 10) # pad2 n"

definition pad4 :: "int \<Rightarrow> string" where
  "pad4 n = digitChar (n div 1000 mod 10) # pad3 n"

definition pad6 :: "int \<Rightarrow> string" where
  "pad6 n = digitChar (n div 100000 mod 10) # digitChar (n div 10000 mod 10) # pad4 n"

text \<open>\<^verbatim>\<open>String(n)\<close> for an integer: the decimal digits, with a sign when negative.\<close>

function decimal :: "int \<Rightarrow> string" where
  "decimal n = (if n < 10 then [digitChar n] else decimal (n div 10) @ [digitChar (n mod 10)])"
  by pat_completeness auto
termination
  by (relation "measure nat") auto

definition numberToString :: "int \<Rightarrow> string" where
  "numberToString n = (if n < 0 then CHR ''-'' # decimal (- n) else decimal n)"

text \<open>The value of a string of decimal digits, \<open>None\<close> when a character is no digit.\<close>

fun digitsVal :: "int \<Rightarrow> string \<Rightarrow> int option" where
  "digitsVal acc [] = Some acc"
| "digitsVal acc (c # cs) =
     (case digitVal c of None \<Rightarrow> None | Some d \<Rightarrow> digitsVal (acc * 10 + d) cs)"

text \<open>
  The time arithmetic of ECMAScript section 21.4.1 on integral time values
  (milliseconds since 1970-01-01T00:00:00Z), with the standard's names. The calendar date
  of a day number and back use the proleptic Gregorian calendar, computed by eras of
  400 years (146097 days) that start on March 1st.
\<close>

definition msPerDay :: int where "msPerDay = 86400000"
definition msPerMinute :: int where "msPerMinute = 60000"

definition Day :: "int \<Rightarrow> int" where "Day t = t div msPerDay"
definition TimeWithinDay :: "int \<Rightarrow> int" where "TimeWithinDay t = t mod msPerDay"

definition civilFromDays :: "int \<Rightarrow> int \<times> int \<times> int" where
  "civilFromDays z0 =
     (let z = z0 + 719468;
          era = z div 146097;
          doe = z - era * 146097;
          yoe = (doe - doe div 1460 + doe div 36524 - doe div 146096) div 365;
          doy = doe - (365 * yoe + yoe div 4 - yoe div 100);
          mp = (5 * doy + 2) div 153;
          d = doy - (153 * mp + 2) div 5 + 1;
          m = (if mp < 10 then mp + 3 else mp - 9)
      in (yoe + era * 400 + (if m \<le> 2 then 1 else 0), m, d))"

definition MakeDay :: "int \<Rightarrow> int \<Rightarrow> int \<Rightarrow> int" where
  "MakeDay y0 m d =
     (let y = (if m \<le> 2 then y0 - 1 else y0);
          era = y div 400;
          yoe = y - era * 400;
          doy = (153 * (if m > 2 then m - 3 else m + 9) + 2) div 5 + d - 1;
          doe = yoe * 365 + yoe div 4 - yoe div 100 + doy
      in era * 146097 + doe - 719468)"

definition YearFromTime :: "int \<Rightarrow> int" where
  "YearFromTime t = fst (civilFromDays (Day t))"
definition MonthFromTime :: "int \<Rightarrow> int" where
  "MonthFromTime t = fst (snd (civilFromDays (Day t)))"
definition DateFromTime :: "int \<Rightarrow> int" where
  "DateFromTime t = snd (snd (civilFromDays (Day t)))"
definition HourFromTime :: "int \<Rightarrow> int" where
  "HourFromTime t = TimeWithinDay t div 3600000"
definition MinFromTime :: "int \<Rightarrow> int" where
  "MinFromTime t = t div 60000 mod 60"
definition SecFromTime :: "int \<Rightarrow> int" where
  "SecFromTime t = t div 1000 mod 60"
definition msFromTime :: "int \<Rightarrow> int" where
  "msFromTime t = t mod 1000"

definition MakeTime :: "int \<Rightarrow> int \<Rightarrow> int \<Rightarrow> int \<Rightarrow> int" where
  "MakeTime h m s ms = h * 3600000 + m * 60000 + s * 1000 + ms"
definition MakeDate :: "int \<Rightarrow> int \<Rightarrow> int" where
  "MakeDate day time = day * msPerDay + time"

definition InLeapYear :: "int \<Rightarrow> bool" where
  "InLeapYear y = (y mod 4 = 0 \<and> (y mod 100 \<noteq> 0 \<or> y mod 400 = 0))"
definition DaysInMonth :: "int \<Rightarrow> int \<Rightarrow> int" where
  "DaysInMonth y m =
     (if m = 2 then (if InLeapYear y then 29 else 28)
      else if m = 4 \<or> m = 6 \<or> m = 9 \<or> m = 11 then 30 else 31)"

text \<open>
  Local time in a zone with the fixed offset \<open>tz\<close> (minutes east of UTC). Daylight
  saving changes are outside this model: one run of the form sees one offset.
\<close>

definition LocalTime :: "int \<Rightarrow> int \<Rightarrow> int" where
  "LocalTime tz t = t + tz * msPerMinute"
definition UTC :: "int \<Rightarrow> int \<Rightarrow> int" where
  "UTC tz t = t - tz * msPerMinute"

text \<open>
  \<^verbatim>\<open>Date.prototype.toISOString\<close> of a valid date: \<^verbatim>\<open>YYYY-MM-DDTHH:mm:ss.sssZ\<close> in UTC, the
  year with a sign and six digits outside 0..9999.
\<close>

definition yearString :: "int \<Rightarrow> string" where
  "yearString y =
     (if 0 \<le> y \<and> y \<le> 9999 then pad4 y
      else if y < 0 then CHR ''-'' # pad6 (- y) else CHR ''+'' # pad6 y)"

definition toISOString :: "int \<Rightarrow> string" where
  "toISOString t =
     yearString (YearFromTime t) @ ''-'' @ pad2 (MonthFromTime t) @ ''-'' @ pad2 (DateFromTime t)
     @ ''T'' @ pad2 (HourFromTime t) @ '':'' @ pad2 (MinFromTime t) @ '':'' @ pad2 (SecFromTime t)
     @ ''.'' @ pad3 (msFromTime t) @ ''Z''"

text \<open>
  \<^verbatim>\<open>Date.prototype.toTimeString\<close>: the local time of day, the offset and the zone's
  display name; \<^verbatim>\<open>Invalid Date\<close> for an invalid date.
\<close>

definition offsetString :: "int \<Rightarrow> string" where
  "offsetString tz =
     (if tz < 0 then CHR ''-'' # pad2 (- tz div 60) @ pad2 (- tz mod 60)
      else CHR ''+'' # pad2 (tz div 60) @ pad2 (tz mod 60))"

definition toTimeString :: "int \<Rightarrow> string \<Rightarrow> int option \<Rightarrow> string" where
  "toTimeString tz zone d =
     (case d of
        None \<Rightarrow> ''Invalid Date''
      | Some t \<Rightarrow>
          pad2 (HourFromTime (LocalTime tz t)) @ '':'' @ pad2 (MinFromTime (LocalTime tz t))
          @ '':'' @ pad2 (SecFromTime (LocalTime tz t))
          @ '' GMT'' @ offsetString tz @ '' ('' @ zone @ '')'')"

text \<open>
  \<^verbatim>\<open>new Date(s)\<close> on a string. The form builds \<^verbatim>\<open>`${date}T${startTime}`\<close> from the values
  of an \<^verbatim>\<open>input type="date"\<close> and an \<^verbatim>\<open>input type="time"\<close>, that is \<^verbatim>\<open>YYYY-MM-DDTHH:mm\<close>:
  a date-time form without offset, which ECMAScript reads as local time. This is the one
  format modelled; every other string (the empty fields' \<^verbatim>\<open>T\<close> among them) and every
  out-of-range field gives an Invalid Date.
\<close>

definition parseDate :: "int \<Rightarrow> string \<Rightarrow> int option" where
  "parseDate tz s =
     (if length s = 16 \<and> s ! 4 = CHR ''-'' \<and> s ! 7 = CHR ''-'' \<and> s ! 10 = CHR ''T''
         \<and> s ! 13 = CHR '':''
      then
        (case (digitsVal 0 (take 4 s), digitsVal 0 (take 2 (drop 5 s)),
               digitsVal 0 (take 2 (drop 8 s)), digitsVal 0 (take 2 (drop 11 s)),
               digitsVal 0 (take 2 (drop 14 s))) of
           (Some y, Some m, Some d, Some h, Some mi) \<Rightarrow>
             if 1 \<le> m \<and> m \<le> 12 \<and> 1 \<le> d \<and> d \<le> DaysInMonth y m \<and> h \<le> 23 \<and> mi \<le> 59
             then Some (UTC tz (MakeDate (MakeDay y m d) (MakeTime h mi 0 0)))
             else None
         | _ \<Rightarrow> None)
      else None)"

section \<open>The connector: GoogleCalendarService\<close>

record service =
  isInitialized :: bool

definition newService :: service where
  "newService = \<lparr>isInitialized = False\<rparr>"

definition scriptSrc :: string where
  "scriptSrc = ''https://apis.google.com/js/api.js''"

text \<open>
  \<^verbatim>\<open>initializeGoogleAPI\<close> (lines 15-34). The result is the settled promise, the service
  afterwards and the effects performed.
\<close>

definition initializeGoogleAPI ::
  "'e browser \<Rightarrow> service \<Rightarrow> unit promise \<times> service \<times> effect list" where
  "initializeGoogleAPI w s =
     (if isInitialized s then (Fulfilled (), s, [])
      else
        (case scriptEvent w of
           ScriptError e \<Rightarrow> (Rejected e, s, [AppendScript scriptSrc])
         | NoScriptEvent \<Rightarrow> (Pending, s, [AppendScript scriptSrc])
         | ScriptLoaded \<Rightarrow>
             if \<not> auth2Loaded w
             then (Pending, s, [AppendScript scriptSrc, GapiLoad ''auth2''])
             else
               (case auth2InitResult w of
                  Fulfilled u \<Rightarrow>
                    (Fulfilled (), s\<lparr>isInitialized := True\<rparr>,
                     [AppendScript scriptSrc, GapiLoad ''auth2'', Auth2Init])
                | Rejected e \<Rightarrow>
                    (Rejected e, s, [AppendScript scriptSrc, GapiLoad ''auth2'', Auth2Init])
                | Pending \<Rightarrow>
                    (Pending, s, [AppendScript scriptSrc, GapiLoad ''auth2'', Auth2Init]))))"

definition calendarScope :: string where
  "calendarScope = ''https://www.googleapis.com/auth/calendar''"

text \<open>
  \<^verbatim>\<open>signIn\<close> (lines 36-48): the whole body stands in \<^verbatim>\<open>try\<close>; the \<^verbatim>\<open>catch\<close> logs and
  returns \<^verbatim>\<open>false\<close>.
\<close>

definition signIn ::
  "'e browser \<Rightarrow> service \<Rightarrow> bool promise \<times> service \<times> effect list" where
  "signIn w s =
     (case initializeGoogleAPI w s of
        (Rejected e, s', tr) \<Rightarrow>
          (Fulfilled False, s', tr @ [ConsoleError ''Google sign-in failed:'' e])
      | (Pending, s', tr) \<Rightarrow> (Pending, s', tr)
      | (Fulfilled u, s', tr) \<Rightarrow>
          (case authSignInResult w of
             Fulfilled user \<Rightarrow>
               (Fulfilled (userIsSignedIn user), s',
                tr @ [GetAuthInstance, AuthSignIn calendarScope])
           | Rejected e \<Rightarrow>
               (Fulfilled False, s',
                tr @ [GetAuthInstance, AuthSignIn calendarScope,
                      ConsoleError ''Google sign-in failed:'' e])
           | Pending \<Rightarrow>
               (Pending, s', tr @ [GetAuthInstance, AuthSignIn calendarScope])))"

text \<open>\<^verbatim>\<open>isSignedIn\<close> (lines 55-59): synchronous; the result and the effects.\<close>

definition isSignedIn :: "'e browser \<Rightarrow> service \<Rightarrow> bool \<times> effect list" where
  "isSignedIn w s =
     (if \<not> isInitialized s then (False, [])
      else (sessionFlag w, [GetAuthInstance, SessionGet]))"

text \<open>
  \<^verbatim>\<open>createEvent\<close> (lines 61-84): initialization, then \<^verbatim>\<open>gapi.load('client', ...)\<close>, whose
  callback runs \<^verbatim>\<open>client.init\<close> and then the insertion into the calendar \<^verbatim>\<open>primary\<close>.
\<close>

definition createEvent ::
  "'e browser \<Rightarrow> service \<Rightarrow> event_data \<Rightarrow> provider_response promise \<times> service \<times> effect list" where
  "createEvent w s ev =
     (case initializeGoogleAPI w s of
        (Rejected e, s', tr) \<Rightarrow> (Rejected e, s', tr)
      | (Pending, s', tr) \<Rightarrow> (Pending, s', tr)
      | (Fulfilled u, s', tr) \<Rightarrow>
          if \<not> clientLoaded w then (Pending, s', tr @ [GapiLoad ''client''])
          else
            (case clientInitResult w of
               Rejected e \<Rightarrow> (Rejected e, s', tr @ [GapiLoad ''client'', ClientInit])
             | Pending \<Rightarrow> (Pending, s', tr @ [GapiLoad ''client'', ClientInit])
             | Fulfilled u' \<Rightarrow>
                 (insertResult w, s',
                  tr @ [GapiLoad ''client'', ClientInit, EventsInsert ''primary'' ev])))"

text \<open>
  \<^verbatim>\<open>updateEvent\<close> (lines 86-98). There is no \<^verbatim>\<open>client.init\<close> on this path: when
  \<^verbatim>\<open>gapi.client.calendar\<close> is not defined the callback throws and the promise stays pending.
\<close>

definition updateEvent ::
  "'e browser \<Rightarrow> service \<Rightarrow> string \<Rightarrow> event_data
     \<Rightarrow> provider_response promise \<times> service \<times> effect list" where
  "updateEvent w s eventId ev =
     (case initializeGoogleAPI w s of
        (Rejected e, s', tr) \<Rightarrow> (Rejected e, s', tr)
      | (Pending, s', tr) \<Rightarrow> (Pending, s', tr)
      | (Fulfilled u, s', tr) \<Rightarrow>
          if \<not> clientLoaded w \<or> \<not> calendarApi w then (Pending, s', tr @ [GapiLoad ''client''])
          else
            (updateResult w, s',
             tr @ [GapiLoad ''client'', EventsUpdate ''primary'' eventId ev]))"

text \<open>
  \<^verbatim>\<open>getEvents\<close> (lines 113-130). \<^verbatim>\<open>timeMin || new Date().toISOString()\<close> takes the current
  time when \<^verbatim>\<open>timeMin\<close> is undefined or the empty string; \<^verbatim>\<open>response.result.items || []\<close>
  takes the empty array when \<^verbatim>\<open>items\<close> is absent (an array, also an empty one, is truthy).
\<close>

definition listRequest :: "'e browser \<Rightarrow> string option \<Rightarrow> string option \<Rightarrow> list_request" where
  "listRequest w tMin tMax =
     \<lparr>calendarId = ''primary'',
      timeMin = (case tMin of None \<Rightarrow> toISOString (now w)
                 | Some t \<Rightarrow> if t = [] then toISOString (now w) else t),
      timeMax = tMax,
      showDeleted = False,
      singleEvents = True,
      orderBy = ''startTime''\<rparr>"

definition getEvents ::
  "'e browser \<Rightarrow> service \<Rightarrow> string option \<Rightarrow> string option
     \<Rightarrow> 'e list promise \<times> service \<times> effect list" where
  "getEvents w s tMin tMax =
     (case initializeGoogleAPI w s of
        (Rejected e, s', tr) \<Rightarrow> (Rejected e, s', tr)
      | (Pending, s', tr) \<Rightarrow> (Pending, s', tr)
      | (Fulfilled u, s', tr) \<Rightarrow>
          if \<not> clientLoaded w \<or> \<not> calendarApi w then (Pending, s', tr @ [GapiLoad ''client''])
          else
            (case listResult w of
               Fulfilled items \<Rightarrow>
                 (Fulfilled (case items of None \<Rightarrow> [] | Some evs \<Rightarrow> evs), s',
                  tr @ [GapiLoad ''client'', EventsList (listRequest w tMin tMax)])
             | Rejected e \<Rightarrow>
                 (Rejected e, s', tr @ [GapiLoad ''client'', EventsList (listRequest w tMin tMax)])
             | Pending \<Rightarrow>
                 (Pending, s', tr @ [GapiLoad ''client'', EventsList (listRequest w tMin tMax)])))"

section \<open>The form: CalendarEventModal\<close>

text \<open>
  A lead (\<^verbatim>\<open>Lead\<close> of \<^verbatim>\<open>@/types/lead\<close>; the declaration is not among the sources, the fields
  are those the form and the lead page read). \<open>createdAt\<close> is the time value of
  \<^verbatim>\<open>new Date(lead.createdAt)\<close>.
\<close>

record lead =
  lead_id :: string
  name :: string
  primaryEmail :: string
  primaryPhone :: string
  status :: string
  assignedAgent :: "string option"
  source :: string
  propertyType :: string
  budgetRange :: string
  leadScore :: string
  createdAt :: jsdate

text \<open>The state \<^verbatim>\<open>formData\<close> (lines 33-42) and the component's three pieces of state.\<close>

record form_data =
  title :: string
  description :: string
  date :: string
  startTime :: string
  endTime :: string
  location :: string
  attendees :: "string list"
  reminders :: "int list"

record modal =
  formData :: form_data
  isLoading :: bool
  isGoogleConnected :: bool

text \<open>
  The props (lines 16-23). The two optional callbacks are present or not; \<^verbatim>\<open>onOpenChange\<close>
  is required.
\<close>

record props =
  lead :: "lead option"
  event :: "calendar_event option"
  onEventCreated :: bool
  onEventUpdated :: bool

definition initialFormData :: form_data where
  "initialFormData =
     \<lparr>title = [], description = [], date = [], startTime = [], endTime = [],
      location = [], attendees = [], reminders = [10]\<rparr>"

definition initialModal :: modal where
  "initialModal = \<lparr>formData = initialFormData, isLoading = False, isGoogleConnected = False\<rparr>"

text \<open>\<^verbatim>\<open>resetForm\<close> (lines 168-179).\<close>

definition resetForm :: "modal \<Rightarrow> modal" where
  "resetForm m = m\<lparr>formData := initialFormData\<rparr>"

text \<open>
  The effect that fills the form (lines 48-70). With an event, the date field is the
  part of \<^verbatim>\<open>startDate.toISOString()\<close> before \<^verbatim>\<open>T\<close> and the time fields are the first five
  characters of \<^verbatim>\<open>toTimeString()\<close>; \<^verbatim>\<open>toISOString\<close> throws a RangeError on an Invalid Date
  (\<open>Inl\<close>). \<^verbatim>\<open>x || d\<close> takes \<^verbatim>\<open>d\<close> when \<^verbatim>\<open>x\<close> is undefined or the empty string; an
  array is truthy.
\<close>

definition populateForm :: "'e browser \<Rightarrow> props \<Rightarrow> form_data \<Rightarrow> string + form_data" where
  "populateForm w p prev =
     (case event p of
        Some ev \<Rightarrow>
          (case startDateTime ev of
             None \<Rightarrow> Inl ''RangeError: Invalid time value''
           | Some t \<Rightarrow>
               Inr \<lparr>title = event_title ev,
                    description = (case event_description ev of None \<Rightarrow> [] | Some d \<Rightarrow> d),
                    date = takeWhile (\<lambda>c. c \<noteq> CHR ''T'') (toISOString t),
                    startTime =
                      take 5 (toTimeString (tzOffset w) (tzDisplayName w) (startDateTime ev)),
                    endTime =
                      take 5 (toTimeString (tzOffset w) (tzDisplayName w) (endDateTime ev)),
                    location = [],
                    attendees = (case event_attendees ev of None \<Rightarrow> [] | Some a \<Rightarrow> a),
                    reminders = (case event_reminders ev of None \<Rightarrow> [10] | Some r \<Rightarrow> r)\<rparr>)
      | None \<Rightarrow>
          (case lead p of
             Some l \<Rightarrow>
               Inr (prev\<lparr>title := ''Follow-up with '' @ name l, attendees := [primaryEmail l]\<rparr>)
           | None \<Rightarrow> Inr prev))"

text \<open>\<^verbatim>\<open>handleGoogleConnect\<close> (lines 85-95).\<close>

definition handleGoogleConnect ::
  "'e browser \<Rightarrow> service \<Rightarrow> modal \<Rightarrow> service \<times> modal \<times> effect list" where
  "handleGoogleConnect w s m =
     (case signIn w s of
        (Fulfilled success, s', tr) \<Rightarrow>
          (s', m\<lparr>isGoogleConnected := success, isLoading := False\<rparr>, tr)
      | (Rejected e, s', tr) \<Rightarrow>
          (s', m\<lparr>isLoading := False\<rparr>,
           tr @ [ConsoleError ''Failed to connect to Google Calendar:'' e])
      | (Pending, s', tr) \<Rightarrow> (s', m\<lparr>isLoading := True\<rparr>, tr))"

text \<open>The two instants that \<^verbatim>\<open>handleSubmit\<close> composes from the fields (lines 106-107).\<close>

definition startDateTimeOf :: "'e browser \<Rightarrow> form_data \<Rightarrow> jsdate" where
  "startDateTimeOf w f = parseDate (tzOffset w) (date f @ ''T'' @ startTime f)"

definition endDateTimeOf :: "'e browser \<Rightarrow> form_data \<Rightarrow> jsdate" where
  "endDateTimeOf w f = parseDate (tzOffset w) (date f @ ''T'' @ endTime f)"

text \<open>
  The object \<^verbatim>\<open>eventData\<close> (lines 109-129), given the two valid time values.
\<close>

definition eventData :: "'e browser \<Rightarrow> form_data \<Rightarrow> int \<Rightarrow> int \<Rightarrow> event_data" where
  "eventData w f st en =
     \<lparr>summary = title f,
      data_description = description f,
      start = \<lparr>dateTime = toISOString st, timeZone = tzName w\<rparr>,
      end_ = \<lparr>dateTime = toISOString en, timeZone = tzName w\<rparr>,
      data_attendees = map (\<lambda>e. \<lparr>email = e\<rparr>) (attendees f),
      data_reminders =
        \<lparr>useDefault = False,
         overrides = map (\<lambda>m. \<lparr>override_method = ''popup'', minutes = m\<rparr>) (reminders f)\<rparr>,
      data_location = location f\<rparr>"

text \<open>The record \<^verbatim>\<open>newEvent\<close> (lines 138-151).\<close>

definition newEvent ::
  "'e browser \<Rightarrow> props \<Rightarrow> form_data \<Rightarrow> int \<Rightarrow> int \<Rightarrow> provider_response \<Rightarrow> calendar_event" where
  "newEvent w p f st en result =
     \<lparr>event_id =
        (case event p of
           None \<Rightarrow> ''event-'' @ numberToString (now w)
         | Some ev \<Rightarrow>
             if event_id ev = [] then ''event-'' @ numberToString (now w) else event_id ev),
      event_title = title f,
      event_description = Some (description f),
      startDateTime = Some st,
      endDateTime = Some en,
      event_attendees = Some (attendees f),
      event_reminders = Some (reminders f),
      leadId = map_option lead_id (lead p),
      googleEventId = response_id result,
      createdBy = ''current-user'',
      event_createdAt = Some (now w),
      event_updatedAt = Some (now w)\<rparr>"

text \<open>
  \<^verbatim>\<open>event?.googleEventId\<close> as a condition: the id when there is an event with a non-empty
  provider id.
\<close>

definition existingGoogleEventId :: "props \<Rightarrow> string option" where
  "existingGoogleEventId p =
     (case event p of
        None \<Rightarrow> None
      | Some ev \<Rightarrow>
          (case googleEventId ev of
             None \<Rightarrow> None
           | Some g \<Rightarrow> if g = [] then None else Some g))"

definition notifyParent :: "props \<Rightarrow> calendar_event \<Rightarrow> effect list" where
  "notifyParent p ne =
     (case event p of
        Some ev \<Rightarrow> (if onEventUpdated p then [OnEventUpdated ne] else [])
      | None \<Rightarrow> (if onEventCreated p then [OnEventCreated ne] else []))"

text \<open>
  \<^verbatim>\<open>handleSubmit\<close> (lines 97-166): the service and the component's state afterwards, and
  the effects in order. \<^verbatim>\<open>toISOString\<close> on an Invalid Date throws inside the \<^verbatim>\<open>try\<close>.
\<close>

definition handleSubmit ::
  "'e browser \<Rightarrow> props \<Rightarrow> service \<Rightarrow> modal \<Rightarrow> service \<times> modal \<times> effect list" where
  "handleSubmit w p s m =
     (if \<not> isGoogleConnected m
      then (case handleGoogleConnect w s m of (s', m', tr) \<Rightarrow> (s', m', PreventDefault # tr))
      else
        (case (startDateTimeOf w (formData m), endDateTimeOf w (formData m)) of
           (Some st, Some en) \<Rightarrow>
             (case (case existingGoogleEventId p of
                      Some g \<Rightarrow> updateEvent w s g (eventData w (formData m) st en)
                    | None \<Rightarrow> createEvent w s (eventData w (formData m) st en)) of
                (Fulfilled result, s', tr) \<Rightarrow>
                  (s', resetForm (m\<lparr>isLoading := False\<rparr>),
                   PreventDefault # tr
                     @ notifyParent p (newEvent w p (formData m) st en result)
                     @ [OnOpenChange False])
              | (Rejected e, s', tr) \<Rightarrow>
                  (s', m\<lparr>isLoading := False\<rparr>,
                   PreventDefault # tr @ [ConsoleError ''Failed to create/update event:'' e])
              | (Pending, s', tr) \<Rightarrow> (s', m\<lparr>isLoading := True\<rparr>, PreventDefault # tr))
         | _ \<Rightarrow>
             (s, m\<lparr>isLoading := False\<rparr>,
              [PreventDefault,
               ConsoleError ''Failed to create/update event:'' ''RangeError: Invalid time value''])))"

text \<open>\<^verbatim>\<open>toggleReminder\<close> (lines 198-205) as the update of \<^verbatim>\<open>formData\<close>, and the offsets offered.\<close>

definition toggleReminder :: "int \<Rightarrow> form_data \<Rightarrow> form_data" where
  "toggleReminder m prev =
     prev\<lparr>reminders :=
       (if m \<in> set (reminders prev) then filter (\<lambda>r. r \<noteq> m) (reminders prev)
        else reminders prev @ [m])\<rparr>"

definition reminderOptions :: "int list" where
  "reminderOptions = [5, 10, 15, 30, 60]"

section \<open>The lead page: filtering and sorting\<close>

text \<open>
  The page component of the lead list (\<^verbatim>\<open>src/unnamed/part_001\<close>). The filter state
  \<^verbatim>\<open>Filters\<close> has optional fields; a field is active when it is truthy (a non-empty
  string) or, for the list-valued ones, defined and of positive length.
\<close>

record filters =
  filter_search :: "string option"
  filter_status :: "string list option"
  filter_assignedAgent :: "string option"
  filter_source :: "string list option"
  filter_propertyType :: "string list option"
  filter_budgetRange :: "string option"
  filter_leadScore :: "string list option"

datatype sort_option = CreatedDesc | CreatedAsc | NameAsc | NameDesc | ScoreHigh | ScoreLow

text \<open>
  The two string operations that depend on the runtime's Unicode tables and locale,
  \<^verbatim>\<open>String.prototype.toLowerCase\<close> and \<^verbatim>\<open>String.prototype.localeCompare\<close>, are parameters.
\<close>

record string_ops =
  toLowerCase :: "string \<Rightarrow> string"
  localeCompare :: "string \<Rightarrow> string \<Rightarrow> int"

text \<open>\<^verbatim>\<open>String.prototype.includes\<close>: the argument occurs as a contiguous part.\<close>

fun includes_str :: "string \<Rightarrow> string \<Rightarrow> bool" where
  "includes_str [] sub = (sub = [])"
| "includes_str (c # cs) sub = (prefix sub (c # cs) \<or> includes_str cs sub)"

text \<open>The seven tests of the filter callback (lines 54-93), each in the source's order.\<close>

definition searchMatches :: "string_ops \<Rightarrow> filters \<Rightarrow> lead \<Rightarrow> bool" where
  "searchMatches loc f l =
     (case filter_search f of
        None \<Rightarrow> True
      | Some term \<Rightarrow>
          if term = [] then True
          else includes_str
                 (toLowerCase loc (name l @ '' '' @ primaryEmail l @ '' '' @ primaryPhone l))
                 (toLowerCase loc term))"

definition listMatches :: "string list option \<Rightarrow> string \<Rightarrow> bool" where
  "listMatches sel v =
     (case sel of None \<Rightarrow> True | Some vs \<Rightarrow> if length vs > 0 then v \<in> set vs else True)"

definition agentMatches :: "filters \<Rightarrow> lead \<Rightarrow> bool" where
  "agentMatches f l =
     (case filter_assignedAgent f of
        None \<Rightarrow> True
      | Some a \<Rightarrow> if a = [] then True else assignedAgent l = Some a)"

definition budgetMatches :: "filters \<Rightarrow> lead \<Rightarrow> bool" where
  "budgetMatches f l =
     (case filter_budgetRange f of
        None \<Rightarrow> True
      | Some b \<Rightarrow> if b = [] then True else budgetRange l = b)"

definition matchesFilters :: "string_ops \<Rightarrow> filters \<Rightarrow> lead \<Rightarrow> bool" where
  "matchesFilters loc f l =
     (if \<not> searchMatches loc f l then False
      else if \<not> listMatches (filter_status f) (status l) then False
      else if \<not> agentMatches f l then False
      else if \<not> listMatches (filter_source f) (source l) then False
      else if \<not> listMatches (filter_propertyType f) (propertyType l) then False
      else if \<not> budgetMatches f l then False
      else if \<not> listMatches (filter_leadScore f) (leadScore l) then False
      else True)"

text \<open>
  The comparator of \<^verbatim>\<open>filtered.sort\<close> (lines 96-115). Its value is a number, \<open>None\<close> for
  NaN: the difference of two time values of which one is NaN, or of two score ranks of
  which one is \<^verbatim>\<open>undefined\<close> (a score other than the three keys of \<^verbatim>\<open>scoreOrder\<close>).
\<close>

definition scoreOrder :: "string \<Rightarrow> int option" where
  "scoreOrder sc =
     (if sc = ''High'' then Some 3 else if sc = ''Medium'' then Some 2
      else if sc = ''Low'' then Some 1 else None)"

definition minus_number :: "int option \<Rightarrow> int option \<Rightarrow> int option" where
  "minus_number a b = (case (a, b) of (Some x, Some y) \<Rightarrow> Some (x - y) | _ \<Rightarrow> None)"

fun compareLeads :: "string_ops \<Rightarrow> sort_option \<Rightarrow> lead \<Rightarrow> lead \<Rightarrow> int option" where
  "compareLeads loc CreatedDesc a b = minus_number (createdAt b) (createdAt a)"
| "compareLeads loc CreatedAsc a b = minus_number (createdAt a) (createdAt b)"
| "compareLeads loc NameAsc a b = Some (localeCompare loc (name a) (name b))"
| "compareLeads loc NameDesc a b = Some (localeCompare loc (name b) (name a))"
| "compareLeads loc ScoreHigh a b = minus_number (scoreOrder (leadScore b)) (scoreOrder (leadScore a))"
| "compareLeads loc ScoreLow a b = minus_number (scoreOrder (leadScore a)) (scoreOrder (leadScore b))"

text \<open>
  \<^verbatim>\<open>Array.prototype.sort\<close> with a comparator: a NaN counts as \<open>0\<close> (ECMAScript's
  SortCompare), and the sort is stable. It is modelled as a stable insertion sort. For
  a comparator that is not a consistent order the standard leaves the order to the
  implementation; the elements are the same in every case.
\<close>

definition sortCompare :: "('a \<Rightarrow> 'a \<Rightarrow> int option) \<Rightarrow> 'a \<Rightarrow> 'a \<Rightarrow> int" where
  "sortCompare cmp x y = (case cmp x y of None \<Rightarrow> 0 | Some v \<Rightarrow> v)"

fun insertSorted :: "('a \<Rightarrow> 'a \<Rightarrow> int option) \<Rightarrow> 'a \<Rightarrow> 'a list \<Rightarrow> 'a list" where
  "insertSorted cmp x [] = [x]"
| "insertSorted cmp x (y # ys) =
     (if sortCompare cmp x y \<le> 0 then x # y # ys else y # insertSorted cmp x ys)"

fun arraySort :: "('a \<Rightarrow> 'a \<Rightarrow> int option) \<Rightarrow> 'a list \<Rightarrow> 'a list" where
  "arraySort cmp [] = []"
| "arraySort cmp (x # xs) = insertSorted cmp x (arraySort cmp xs)"

text \<open>\<^verbatim>\<open>filteredAndSortedLeads\<close> (lines 53-118), from the permission-filtered list.\<close>

definition filteredAndSortedLeads ::
  "string_ops \<Rightarrow> filters \<Rightarrow> sort_option \<Rightarrow> lead list \<Rightarrow> lead list" where
  "filteredAndSortedLeads loc f sortBy userFilteredLeads =
     arraySort (compareLeads loc sortBy) (filter (matchesFilters loc f) userFilteredLeads)"

text \<open>
  The list the page shows. \<^verbatim>\<open>PermissionService.filterLeadsForUser\<close> (\<^verbatim>\<open>@/lib/permissions\<close>)
  is not among the sources; it is the parameter \<open>filterLeadsForUser\<close>, applied to all
  leads and the user as in \<^verbatim>\<open>userFilteredLeads\<close> (lines 34-36).
\<close>

definition userFilteredLeads :: "(lead list \<Rightarrow> 'u \<Rightarrow> lead list) \<Rightarrow> lead list \<Rightarrow> 'u \<Rightarrow> lead list" where
  "userFilteredLeads filterLeadsForUser leads user = filterLeadsForUser leads user"

definition displayedLeads ::
  "(lead list \<Rightarrow> 'u \<Rightarrow> lead list) \<Rightarrow> string_ops \<Rightarrow> lead list \<Rightarrow> 'u \<Rightarrow> filters \<Rightarrow> sort_option
     \<Rightarrow> lead list" where
  "displayedLeads filterLeadsForUser loc leads user f sortBy =
     filteredAndSortedLeads loc f sortBy (userFilteredLeads filterLeadsForUser leads user)"

section \<open>The disconnect endpoint\<close>

text \<open>
  The route handler \<^verbatim>\<open>POST\<close> (\<^verbatim>\<open>src/unnamed/part_000\<close>). Of the request only the
  \<^verbatim>\<open>authorization\<close> header is read (\<open>None\<close> when \<^verbatim>\<open>headers.get\<close> gives \<^verbatim>\<open>null\<close>).
  \<^verbatim>\<open>jwt.verify\<close> is the parameter \<open>verify\<close>: it says whether the token verifies under the
  secret (the library throws otherwise, and the inner \<^verbatim>\<open>catch\<close> answers). The decoded token
  is not used. The outer \<^verbatim>\<open>catch\<close> (status 500) guards statements that do not throw, so
  it answers no request. Besides the response the handler could act on the provider and
  on the user store; those actions are the type \<open>server_effect\<close>, and the handler's
  second component lists the ones it performs.
\<close>

record request =
  authorization :: "string option"

record response =
  statusCode :: nat
  message :: string

datatype server_effect =
    RevokeOAuthTokens string
  | RemoveGoogleAccountInfo string
  | UpdateUser string
  | LogError string

definition JWT_SECRET :: "string option \<Rightarrow> string" where
  "JWT_SECRET env = (case env of None \<Rightarrow> ''your-secret-key'' | Some v \<Rightarrow> if v = [] then ''your-secret-key'' else v)"

definition POST ::
  "(string \<Rightarrow> string \<Rightarrow> bool) \<Rightarrow> string option \<Rightarrow> request \<Rightarrow> response \<times> server_effect list" where
  "POST verify env req =
     (case authorization req of
        None \<Rightarrow> (\<lparr>statusCode = 401, message = ''Authentication required''\<rparr>, [])
      | Some authHeader \<Rightarrow>
          if authHeader = [] \<or> \<not> prefix ''Bearer '' authHeader
          then (\<lparr>statusCode = 401, message = ''Authentication required''\<rparr>, [])
          else
            if verify (drop 7 authHeader) (JWT_SECRET env)
            then (\<lparr>statusCode = 200, message = ''Google account disconnected successfully''\<rparr>, [])
            else (\<lparr>statusCode = 401, message = ''Invalid token''\<rparr>, []))"

section \<open>Concrete inputs\<close>

text \<open>
  A browser in which every request succeeds, in the zone UTC at
  2024-06-01T09:00:00Z, and a service that has been initialized.
\<close>

definition exampleBrowser :: "string browser" where
  "exampleBrowser =
     \<lparr>scriptEvent = ScriptLoaded, auth2Loaded = True, auth2InitResult = Fulfilled (),
      authSignInResult = Fulfilled \<lparr>userIsSignedIn = True\<rparr>, sessionFlag = True,
      clientLoaded = True, clientInitResult = Fulfilled (), calendarApi = True,
      insertResult = Fulfilled \<lparr>response_id = Some ''g1''\<rparr>,
      updateResult = Fulfilled \<lparr>response_id = Some ''g1''\<rparr>,
      listResult = Fulfilled None, now = 1717232400000, tzOffset = 0, tzName = ''UTC'',
      tzDisplayName = ''Coordinated Universal Time''\<rparr>"

definition readyService :: service where
  "readyService = \<lparr>isInitialized = True\<rparr>"

text \<open>Four leads of two agents, a permission filter that keeps a user's own leads, string
  operations, a filter on the status, a filled form and props without an event, and a
  token check that accepts one token.\<close>

definition mkLead :: "string \<Rightarrow> string \<Rightarrow> string \<Rightarrow> int \<Rightarrow> lead" where
  "mkLead n st ag t =
     \<lparr>lead_id = n, name = n, primaryEmail = n @ ''@x.com'', primaryPhone = ''555'',
      status = st, assignedAgent = Some ag, source = ''Website'',
      propertyType = ''Residential'', budgetRange = ''100k-200k'', leadScore = ''High'',
      createdAt = Some t\<rparr>"

definition exampleLeads :: "lead list" where
  "exampleLeads =
     [mkLead ''Ann'' ''New'' ''agent1'' 1, mkLead ''Bob'' ''New'' ''agent2'' 2,
      mkLead ''Cy'' ''New'' ''agent1'' 3, mkLead ''Dee'' ''Closed'' ''agent1'' 4]"

definition ownLeadsOnly :: "lead list \<Rightarrow> string \<Rightarrow> lead list" where
  "ownLeadsOnly leads user = filter (\<lambda>l. assignedAgent l = Some user) leads"

definition exampleOps :: string_ops where
  "exampleOps =
     \<lparr>toLowerCase = (\<lambda>s. s), localeCompare = (\<lambda>a b. int (length a) - int (length b))\<rparr>"

definition statusNew :: filters where
  "statusNew =
     \<lparr>filter_search = None, filter_status = Some [''New''], filter_assignedAgent = None,
      filter_source = None, filter_propertyType = None, filter_budgetRange = None,
      filter_leadScore = None\<rparr>"

definition exampleForm :: form_data where
  "exampleForm =
     \<lparr>title = ''Viewing'', description = [], date = ''2024-06-01'', startTime = ''09:00'',
      endTime = ''10:00'', location = [], attendees = [''a@x.com''], reminders = [10]\<rparr>"

definition noEventProps :: props where
  "noEventProps = \<lparr>lead = None, event = None, onEventCreated = True, onEventUpdated = True\<rparr>"

definition exampleVerify :: "string \<Rightarrow> string \<Rightarrow> bool" where
  "exampleVerify token secret = (token = ''good'' \<and> secret = ''your-secret-key'')"

text \<open>
  The stored event of the round trip, 2024-06-01 from 09:00 to 10:00 UTC, and browsers in
  two other zones: one hour east of UTC and ten hours west.
\<close>

definition meetingEvent :: calendar_event where
  "meetingEvent =
     \<lparr>event_id = ''e1'', event_title = ''Viewing'', event_description = None,
      startDateTime = Some 1717232400000, endDateTime = Some 1717236000000,
      event_attendees = None, event_reminders = None, leadId = None,
      googleEventId = Some ''g1'', createdBy = ''current-user'',
      event_createdAt = Some 1717232400000, event_updatedAt = Some 1717232400000\<rparr>"

definition lagosBrowser :: "string browser" where
  "lagosBrowser =
     exampleBrowser\<lparr>tzOffset := 60, tzName := ''Africa/Lagos'',
                    tzDisplayName := ''West Africa Standard Time''\<rparr>"

definition honoluluBrowser :: "string browser" where
  "honoluluBrowser =
     exampleBrowser\<lparr>tzOffset := - 600, tzName := ''Pacific/Honolulu'',
                    tzDisplayName := ''Hawaii-Aleutian Standard Time''\<rparr>"

section \<open>The round trip of an event through the form\<close>

text \<open>
  An event is decomposed into the fields by the effect that fills the form, in the
  browser \<open>w1\<close>, and recomposed into two instants as \<^verbatim>\<open>handleSubmit\<close> does, in the browser
  \<open>w2\<close>. In the running form both are the same browser.
\<close>

definition roundTrip ::
  "'e browser \<Rightarrow> 'e browser \<Rightarrow> calendar_event \<Rightarrow> form_data \<Rightarrow> (jsdate \<times> jsdate) option" where
  "roundTrip w1 w2 ev prev =
     (case populateForm w1
             \<lparr>lead = None, event = Some ev, onEventCreated = True, onEventUpdated = True\<rparr> prev of
        Inl e \<Rightarrow> None
      | Inr f \<Rightarrow> Some (startDateTimeOf w2 f, endDateTimeOf w2 f))"

section \<open>Predicates on effects\<close>

text \<open>
  An effect that writes an event at the provider (\<^verbatim>\<open>events.insert\<close>, \<^verbatim>\<open>events.update\<close>),
  and an effect that calls back the form's parent.
\<close>

definition isEventWrite :: "effect \<Rightarrow> bool" where
  "isEventWrite e =
     (case e of EventsInsert c d \<Rightarrow> True | EventsUpdate c g d \<Rightarrow> True | _ \<Rightarrow> False)"

definition isParentCallback :: "effect \<Rightarrow> bool" where
  "isParentCallback e =
     (case e of OnEventCreated ev \<Rightarrow> True | OnEventUpdated ev \<Rightarrow> True | _ \<Rightarrow> False)"

section \<open>The connector's lifecycle\<close>

lemma initialize_fulfilled_initialized:
  "initializeGoogleAPI w s = (Fulfilled u, s', tr) \<Longrightarrow> isInitialized s'"
  by (auto simp: initializeGoogleAPI_def split: if_splits script_event.splits promise.splits)

lemma initialize_not_fulfilled_unchanged:
  "initializeGoogleAPI w s = (r, s', tr) \<Longrightarrow> r \<noteq> Fulfilled () \<Longrightarrow> s' = s"
  by (auto simp: initializeGoogleAPI_def split: if_splits script_event.splits promise.splits)

lemma initialize_trace:
  "set (snd (snd (initializeGoogleAPI w s)))
     \<subseteq> {AppendScript scriptSrc, GapiLoad ''auth2'', Auth2Init}"
  by (auto simp: initializeGoogleAPI_def split: if_splits script_event.splits promise.splits)

text \<open>
  Claim C1. In a state whose \<open>isInitialized\<close> flag is set, \<open>initializeGoogleAPI\<close>
  returns at once: the promise is fulfilled, the service is unchanged and no effect is
  performed (no script element, no \<^verbatim>\<open>gapi.load\<close>, no \<^verbatim>\<open>auth2.init\<close>), whatever the
  browser would answer. So a second call after the first, in any browser \<open>w'\<close>, gives
  the result of the first and changes nothing more.
\<close>

theorem initialize_idempotent:
  assumes "isInitialized s"
  shows "initializeGoogleAPI w s = (Fulfilled (), s, []) \<and>
         (case initializeGoogleAPI w s of
            (r, s', tr) \<Rightarrow> initializeGoogleAPI w' s' = initializeGoogleAPI w s)"
  using assms by (simp add: initializeGoogleAPI_def)

theorem initialize_idempotent_witness:
  "isInitialized readyService \<and>
   initializeGoogleAPI exampleBrowser readyService = (Fulfilled (), readyService, [])"
  using initialize_idempotent [of readyService exampleBrowser exampleBrowser]
  by (simp add: readyService_def)

text \<open>
  Claim C2. The promise of \<open>signIn\<close> is never rejected. It is fulfilled with
  \<open>True\<close> exactly when initialization succeeded and the library's sign-in resolved to a
  user who is signed in. When initialization is rejected, or the library's sign-in is
  rejected (the user cancels, the popup is blocked), it is fulfilled with \<open>False\<close> and
  the last effect is the console message carrying the reason.
\<close>

theorem signIn_never_rejects:
  "fst (signIn w s) \<noteq> Rejected e \<and>
   (fst (signIn w s) = Fulfilled True) =
     (\<exists>user. fst (initializeGoogleAPI w s) = Fulfilled () \<and>
             authSignInResult w = Fulfilled user \<and> userIsSignedIn user) \<and>
   ((fst (initializeGoogleAPI w s) = Rejected e \<or>
     fst (initializeGoogleAPI w s) = Fulfilled () \<and> authSignInResult w = Rejected e)
    \<longrightarrow> fst (signIn w s) = Fulfilled False \<and>
        last (snd (snd (signIn w s))) = ConsoleError ''Google sign-in failed:'' e)"
  by (cases "initializeGoogleAPI w s"; cases "fst (initializeGoogleAPI w s)";
      cases "authSignInResult w") (auto simp: signIn_def)

theorem signIn_never_rejects_witness:
  "authSignInResult (exampleBrowser\<lparr>authSignInResult := Rejected ''popup_closed_by_user''\<rparr>)
      = Rejected ''popup_closed_by_user'' \<and>
   fst (initializeGoogleAPI
          (exampleBrowser\<lparr>authSignInResult := Rejected ''popup_closed_by_user''\<rparr>) newService)
      = Fulfilled () \<and>
   fst (signIn (exampleBrowser\<lparr>authSignInResult := Rejected ''popup_closed_by_user''\<rparr>)
          newService) = Fulfilled False \<and>
   last (snd (snd (signIn
          (exampleBrowser\<lparr>authSignInResult := Rejected ''popup_closed_by_user''\<rparr>) newService)))
      = ConsoleError ''Google sign-in failed:'' ''popup_closed_by_user''"
proof -
  let ?w = "exampleBrowser\<lparr>authSignInResult := Rejected ''popup_closed_by_user''\<rparr>"
  have init: "fst (initializeGoogleAPI ?w newService) = Fulfilled ()"
    by (simp add: initializeGoogleAPI_def exampleBrowser_def newService_def)
  have rej: "authSignInResult ?w = Rejected ''popup_closed_by_user''"
    by simp
  from signIn_never_rejects [of ?w newService "''popup_closed_by_user''"] init rej
  show ?thesis by simp
qed

text \<open>
  Claim C7. While \<open>isInitialized\<close> is not set, \<open>isSignedIn\<close> answers \<open>False\<close> and
  performs no effect: the auth instance is not fetched and the session flag is not
  read, so the answer is the same in every browser. Once the flag is set the answer is
  the live session flag. The flag is set only by an initialization that succeeded: after
  a call of \<open>initializeGoogleAPI\<close> from an uninitialized state, \<open>isSignedIn\<close> is the
  session flag if that call was fulfilled and \<open>False\<close> otherwise.
\<close>

theorem isSignedIn_uninitialized:
  "(\<not> isInitialized s \<longrightarrow>
      isSignedIn w s = (False, []) \<and> isSignedIn w s = isSignedIn w' s) \<and>
   (isInitialized s \<longrightarrow> fst (isSignedIn w s) = sessionFlag w) \<and>
   (\<not> isInitialized s0 \<and> initializeGoogleAPI w0 s0 = (r, s, tr) \<longrightarrow>
      fst (isSignedIn w s) = (r = Fulfilled () \<and> sessionFlag w))"
  by (auto simp: isSignedIn_def initializeGoogleAPI_def
           split: if_splits script_event.splits promise.splits)

theorem isSignedIn_uninitialized_witness:
  "\<not> isInitialized newService \<and> sessionFlag exampleBrowser \<and>
   isSignedIn exampleBrowser newService = (False, []) \<and>
   isInitialized readyService \<and> fst (isSignedIn exampleBrowser readyService) \<and>
   initializeGoogleAPI (exampleBrowser\<lparr>scriptEvent := ScriptError ''blocked''\<rparr>) newService
     = (Rejected ''blocked'', newService, [AppendScript scriptSrc])"
proof -
  let ?w0 = "exampleBrowser\<lparr>scriptEvent := ScriptError ''blocked''\<rparr>"
  have u: "\<not> isInitialized newService" "isInitialized readyService"
          "sessionFlag exampleBrowser"
    by (simp_all add: newService_def readyService_def exampleBrowser_def)
  have i: "initializeGoogleAPI ?w0 newService
             = (Rejected ''blocked'', newService, [AppendScript scriptSrc])"
    by (simp add: initializeGoogleAPI_def newService_def)
  from isSignedIn_uninitialized
         [of newService exampleBrowser exampleBrowser newService ?w0 "Rejected ''blocked''"
             "[AppendScript scriptSrc]"]
       isSignedIn_uninitialized
         [of readyService exampleBrowser exampleBrowser newService ?w0 "Rejected ''blocked''"
             "[AppendScript scriptSrc]"]
       u i
  show ?thesis by simp
qed

lemma signIn_trace:
  "set (snd (snd (signIn w s)))
     \<subseteq> {AppendScript scriptSrc, GapiLoad ''auth2'', Auth2Init, GetAuthInstance,
         AuthSignIn calendarScope} \<union> {ConsoleError ''Google sign-in failed:'' e |e. True}"
  using initialize_trace [of w s]
  by (cases "initializeGoogleAPI w s"; cases "fst (initializeGoogleAPI w s)";
      cases "authSignInResult w") (auto simp: signIn_def)

lemma signIn_not_rejected: "fst (signIn w s) \<noteq> Rejected e"
  by (cases "initializeGoogleAPI w s"; cases "fst (initializeGoogleAPI w s)";
      cases "authSignInResult w") (auto simp: signIn_def)

section \<open>Listing events\<close>

text \<open>The calendar arithmetic at some known dates, leap days among them.\<close>

lemma calendar_examples:
  "civilFromDays 0 = (1970, 1, 1)" "civilFromDays (- 1) = (1969, 12, 31)"
  "civilFromDays 11016 = (2000, 2, 29)" "civilFromDays 19782 = (2024, 2, 29)"
  "civilFromDays 19875 = (2024, 6, 1)"
  "MakeDay 1970 1 1 = 0" "MakeDay 2000 2 29 = 11016" "MakeDay 2024 3 1 = 19783"
  by code_simp+

lemma toISOString_example: "toISOString 1717232400000 = ''2024-06-01T09:00:00.000Z''"
  by code_simp

text \<open>
  Claim C5. With no arguments, the only request \<open>getEvents\<close> can send to
  \<^verbatim>\<open>events.list\<close> is for the calendar \<^verbatim>\<open>primary\<close> with \<^verbatim>\<open>timeMin\<close> the current time in ISO
  form, no \<^verbatim>\<open>timeMax\<close>, \<^verbatim>\<open>showDeleted\<close> false, \<^verbatim>\<open>singleEvents\<close> true and \<^verbatim>\<open>orderBy\<close>
  \<^verbatim>\<open>startTime\<close>; it is sent (as the last effect) whenever initialization succeeds and the
  client module and the calendar API are there. When the provider then answers with
  \<^verbatim>\<open>items\<close> absent or empty, the promise is fulfilled with the empty list, whatever the
  arguments.
\<close>

theorem getEvents_defaults:
  "(EventsList r \<in> set (snd (snd (getEvents w s None None))) \<longrightarrow>
      r = \<lparr>calendarId = ''primary'', timeMin = toISOString (now w), timeMax = None,
           showDeleted = False, singleEvents = True, orderBy = ''startTime''\<rparr>) \<and>
   (fst (initializeGoogleAPI w s) = Fulfilled () \<and> clientLoaded w \<and> calendarApi w \<longrightarrow>
      last (snd (snd (getEvents w s None None)))
        = EventsList \<lparr>calendarId = ''primary'', timeMin = toISOString (now w), timeMax = None,
                      showDeleted = False, singleEvents = True, orderBy = ''startTime''\<rparr>) \<and>
   (fst (initializeGoogleAPI w s) = Fulfilled () \<and> clientLoaded w \<and> calendarApi w \<and>
    listResult w = Fulfilled items \<and> (items = None \<or> items = Some []) \<longrightarrow>
      fst (getEvents w s tMin tMax) = Fulfilled [])"
proof (intro conjI impI)
  assume "EventsList r \<in> set (snd (snd (getEvents w s None None)))"
  moreover have "EventsList r \<notin> set (snd (snd (initializeGoogleAPI w s)))"
    using initialize_trace [of w s] by auto
  ultimately show "r = \<lparr>calendarId = ''primary'', timeMin = toISOString (now w), timeMax = None,
           showDeleted = False, singleEvents = True, orderBy = ''startTime''\<rparr>"
    by (cases "initializeGoogleAPI w s"; cases "fst (initializeGoogleAPI w s)";
        cases "listResult w")
       (auto simp: getEvents_def listRequest_def split: if_splits)
next
  assume "fst (initializeGoogleAPI w s) = Fulfilled () \<and> clientLoaded w \<and> calendarApi w"
  then show "last (snd (snd (getEvents w s None None)))
        = EventsList \<lparr>calendarId = ''primary'', timeMin = toISOString (now w), timeMax = None,
                      showDeleted = False, singleEvents = True, orderBy = ''startTime''\<rparr>"
    by (cases "initializeGoogleAPI w s"; cases "listResult w")
       (auto simp: getEvents_def listRequest_def)
next
  assume "fst (initializeGoogleAPI w s) = Fulfilled () \<and> clientLoaded w \<and> calendarApi w \<and>
    listResult w = Fulfilled items \<and> (items = None \<or> items = Some [])"
  then show "fst (getEvents w s tMin tMax) = Fulfilled []"
    by (cases "initializeGoogleAPI w s") (auto simp: getEvents_def)
qed

theorem getEvents_defaults_witness:
  "fst (initializeGoogleAPI exampleBrowser readyService) = Fulfilled () \<and>
   clientLoaded exampleBrowser \<and> calendarApi exampleBrowser \<and>
   listResult exampleBrowser = Fulfilled None \<and>
   fst (getEvents exampleBrowser readyService None None) = Fulfilled [] \<and>
   EventsList \<lparr>calendarId = ''primary'', timeMin = ''2024-06-01T09:00:00.000Z'',
                timeMax = None, showDeleted = False, singleEvents = True,
                orderBy = ''startTime''\<rparr>
     \<in> set (snd (snd (getEvents exampleBrowser readyService None None))) \<and>
   last (snd (snd (getEvents exampleBrowser readyService None None)))
     = EventsList \<lparr>calendarId = ''primary'', timeMin = ''2024-06-01T09:00:00.000Z'',
                   timeMax = None, showDeleted = False, singleEvents = True,
                   orderBy = ''startTime''\<rparr>"
proof -
  let ?r = "\<lparr>calendarId = ''primary'', timeMin = ''2024-06-01T09:00:00.000Z'',
             timeMax = None, showDeleted = False, singleEvents = True,
             orderBy = ''startTime''\<rparr>"
  have init: "fst (initializeGoogleAPI exampleBrowser readyService) = Fulfilled ()"
    by (simp add: initializeGoogleAPI_def readyService_def)
  have env: "clientLoaded exampleBrowser" "calendarApi exampleBrowser"
    "listResult exampleBrowser = Fulfilled None" "now exampleBrowser = 1717232400000"
    by (simp_all add: exampleBrowser_def)
  have sent: "EventsList ?r \<in> set (snd (snd (getEvents exampleBrowser readyService None None)))"
    using env
    by (simp add: getEvents_def initializeGoogleAPI_def readyService_def listRequest_def
          toISOString_example)
  from getEvents_defaults [of ?r exampleBrowser readyService None None None] init env sent
  show ?thesis by (simp add: toISOString_example)
qed

section \<open>Submitting the form\<close>

text \<open>
  Claim C6. When the form is submitted while \<open>isGoogleConnected\<close> is false, the
  effects are \<^verbatim>\<open>preventDefault\<close> followed by exactly those of \<open>signIn\<close>; the fields
  \<open>formData\<close> are unchanged; and no effect is an insert or update at the provider or a
  call of \<^verbatim>\<open>onEventCreated\<close> or \<^verbatim>\<open>onEventUpdated\<close>.
\<close>

theorem submit_not_connected:
  assumes "\<not> isGoogleConnected m"
  shows "snd (snd (handleSubmit w p s m)) = PreventDefault # snd (snd (signIn w s)) \<and>
         formData (fst (snd (handleSubmit w p s m))) = formData m \<and>
         (\<forall>e \<in> set (snd (snd (handleSubmit w p s m))). \<not> isEventWrite e \<and> \<not> isParentCallback e)"
proof -
  have tr: "snd (snd (handleSubmit w p s m)) = PreventDefault # snd (snd (signIn w s))"
    using assms signIn_not_rejected [of w s]
    by (cases "signIn w s"; cases "fst (signIn w s)")
       (auto simp: handleSubmit_def handleGoogleConnect_def)
  have fd: "formData (fst (snd (handleSubmit w p s m))) = formData m"
    using assms
    by (cases "signIn w s"; cases "fst (signIn w s)")
       (auto simp: handleSubmit_def handleGoogleConnect_def)
  have "\<forall>e \<in> set (snd (snd (signIn w s))). \<not> isEventWrite e \<and> \<not> isParentCallback e"
    using signIn_trace [of w s] by (auto simp: isEventWrite_def isParentCallback_def)
  with tr fd show ?thesis by (simp add: isEventWrite_def isParentCallback_def)
qed

theorem submit_not_connected_witness:
  "\<not> isGoogleConnected initialModal \<and>
   snd (snd (handleSubmit exampleBrowser
               \<lparr>lead = None, event = None, onEventCreated = True, onEventUpdated = True\<rparr>
               readyService initialModal))
     = [PreventDefault, GetAuthInstance, AuthSignIn calendarScope] \<and>
   formData (fst (snd (handleSubmit exampleBrowser
               \<lparr>lead = None, event = None, onEventCreated = True, onEventUpdated = True\<rparr>
               readyService initialModal))) = initialFormData"
proof -
  have nc: "\<not> isGoogleConnected initialModal" by (simp add: initialModal_def)
  have si: "snd (snd (signIn exampleBrowser readyService))
              = [GetAuthInstance, AuthSignIn calendarScope]"
    by (simp add: signIn_def initializeGoogleAPI_def readyService_def exampleBrowser_def)
  from submit_not_connected [OF nc, of exampleBrowser
      "\<lparr>lead = None, event = None, onEventCreated = True, onEventUpdated = True\<rparr>" readyService]
    nc si
  show ?thesis by (simp add: initialModal_def)
qed

section \<open>Reminders\<close>

text \<open>
  Claim C8. For every offset \<open>m\<close> (the five offered ones among them) and every
  form state: toggling \<open>m\<close> twice gives a reminder list with the same set of elements
  as before; one toggle flips the membership of \<open>m\<close>; and one toggle leaves the
  membership of every other offset \<open>n\<close> as it was.
\<close>

theorem toggleReminder_twice:
  "set (reminders (toggleReminder m (toggleReminder m f))) = set (reminders f) \<and>
   (m \<in> set (reminders (toggleReminder m f))) = (m \<notin> set (reminders f)) \<and>
   (n \<noteq> m \<longrightarrow> (n \<in> set (reminders (toggleReminder m f))) = (n \<in> set (reminders f)))"
  by (auto simp: toggleReminder_def)

theorem toggleReminder_twice_witness:
  "(5::int) \<noteq> 10 \<and> 10 \<in> set reminderOptions \<and>
   reminders (toggleReminder 10 initialFormData) = [] \<and>
   reminders (toggleReminder 10 (toggleReminder 10 initialFormData)) = [10] \<and>
   (5 \<in> set (reminders (toggleReminder 10 initialFormData)))
     = (5 \<in> set (reminders initialFormData))"
  using toggleReminder_twice [of 10 initialFormData 5]
  by (simp add: toggleReminder_def initialFormData_def reminderOptions_def)

section \<open>The payload sent to the provider\<close>

lemma createEvent_writes:
  "e \<in> set (snd (snd (createEvent w s d))) \<Longrightarrow> isEventWrite e \<Longrightarrow> e = EventsInsert ''primary'' d"
  using initialize_trace [of w s]
  by (cases "initializeGoogleAPI w s"; cases "fst (initializeGoogleAPI w s)";
      cases "clientInitResult w")
     (auto simp: createEvent_def isEventWrite_def split: if_splits)

lemma updateEvent_writes:
  "e \<in> set (snd (snd (updateEvent w s g d))) \<Longrightarrow> isEventWrite e
     \<Longrightarrow> e = EventsUpdate ''primary'' g d"
  using initialize_trace [of w s]
  by (cases "initializeGoogleAPI w s"; cases "fst (initializeGoogleAPI w s)")
     (auto simp: updateEvent_def isEventWrite_def split: if_splits)

lemma notifyParent_no_write: "e \<in> set (notifyParent p ne) \<Longrightarrow> \<not> isEventWrite e"
  by (auto simp: notifyParent_def isEventWrite_def split: option.splits if_splits)

lemma handleSubmit_writes:
  assumes conn: "isGoogleConnected m"
    and mem: "e \<in> set (snd (snd (handleSubmit w p s m)))"
    and wr: "isEventWrite e"
  shows "\<exists>st en. startDateTimeOf w (formData m) = Some st \<and>
                 endDateTimeOf w (formData m) = Some en \<and>
                 (e = EventsInsert ''primary'' (eventData w (formData m) st en) \<or>
                  (\<exists>g. e = EventsUpdate ''primary'' g (eventData w (formData m) st en)))"
proof (cases "startDateTimeOf w (formData m)")
  case None
  with conn mem wr show ?thesis
    by (auto simp: handleSubmit_def isEventWrite_def)
next
  case (Some st)
  note st = this
  show ?thesis
  proof (cases "endDateTimeOf w (formData m)")
    case None
    with conn mem wr st show ?thesis
      by (auto simp: handleSubmit_def isEventWrite_def)
  next
    case (Some en)
    let ?d = "eventData w (formData m) st en"
    let ?call = "case existingGoogleEventId p of
                    Some g \<Rightarrow> updateEvent w s g ?d | None \<Rightarrow> createEvent w s ?d"
    have "e \<in> set (snd (snd ?call))"
      using conn mem wr st Some notifyParent_no_write [of e p]
      by (cases ?call; cases "fst ?call")
         (auto simp: handleSubmit_def isEventWrite_def)
    then have "e = EventsInsert ''primary'' ?d \<or> (\<exists>g. e = EventsUpdate ''primary'' g ?d)"
      using wr createEvent_writes [of e w s ?d] updateEvent_writes [of e w s _ ?d]
      by (cases "existingGoogleEventId p") auto
    with st Some show ?thesis by simp
  qed
qed

text \<open>
  Claim C4. When the form is submitted while connected, every payload that reaches
  the provider (through \<^verbatim>\<open>createEvent\<close>, or \<^verbatim>\<open>updateEvent\<close> when the event has a provider
  id) has one attendee object per attendee of the form and the reminders
  \<^verbatim>\<open>useDefault: false\<close> with one override \<^verbatim>\<open>{method: 'popup', minutes: m}\<close> per reminder
  offset \<open>m\<close> of the form, in order. With the attendees \<^verbatim>\<open>["a@x.com"]\<close> and the reminders
  \<^verbatim>\<open>[10]\<close> that is the attendee list \<^verbatim>\<open>[{email: "a@x.com"}]\<close> and exactly the one override
  of 10 minutes.
\<close>

theorem submit_payload:
  assumes "isGoogleConnected m"
    and "EventsInsert c d \<in> set (snd (snd (handleSubmit w p s m))) \<or>
         EventsUpdate c g d \<in> set (snd (snd (handleSubmit w p s m)))"
  shows "data_attendees d = map (\<lambda>a. \<lparr>email = a\<rparr>) (attendees (formData m)) \<and>
         data_reminders d =
           \<lparr>useDefault = False,
            overrides = map (\<lambda>x. \<lparr>override_method = ''popup'', minutes = x\<rparr>)
                          (reminders (formData m))\<rparr> \<and>
         (attendees (formData m) = [''a@x.com''] \<and> reminders (formData m) = [10] \<longrightarrow>
            data_attendees d = [\<lparr>email = ''a@x.com''\<rparr>] \<and>
            data_reminders d =
              \<lparr>useDefault = False,
               overrides = [\<lparr>override_method = ''popup'', minutes = 10\<rparr>]\<rparr>)"
proof -
  from assms(2) obtain e where e: "e \<in> set (snd (snd (handleSubmit w p s m)))"
    and shape: "e = EventsInsert c d \<or> e = EventsUpdate c g d"
    by blast
  from shape have "isEventWrite e" by (auto simp: isEventWrite_def)
  from handleSubmit_writes [OF assms(1) e this] shape
  obtain st en where "d = eventData w (formData m) st en" by auto
  then show ?thesis by (simp add: eventData_def)
qed

theorem submit_payload_witness:
  "isGoogleConnected \<lparr>formData = exampleForm, isLoading = False, isGoogleConnected = True\<rparr> \<and>
   attendees exampleForm = [''a@x.com''] \<and> reminders exampleForm = [10] \<and>
   (\<exists>d. EventsInsert ''primary'' d
          \<in> set (snd (snd (handleSubmit exampleBrowser noEventProps readyService
                 \<lparr>formData = exampleForm, isLoading = False, isGoogleConnected = True\<rparr>))) \<and>
        data_attendees d = [\<lparr>email = ''a@x.com''\<rparr>] \<and>
        data_reminders d =
          \<lparr>useDefault = False, overrides = [\<lparr>override_method = ''popup'', minutes = 10\<rparr>]\<rparr>)"
proof -
  let ?m = "\<lparr>formData = exampleForm, isLoading = False, isGoogleConnected = True\<rparr>"
  let ?d = "eventData exampleBrowser exampleForm 1717232400000 1717236000000"
  have conn: "isGoogleConnected ?m" by simp
  have form: "attendees exampleForm = [''a@x.com'']" "reminders exampleForm = [10]"
    by (simp_all add: exampleForm_def)
  have sent: "EventsInsert ''primary'' ?d
      \<in> set (snd (snd (handleSubmit exampleBrowser noEventProps readyService ?m)))"
    by code_simp
  from submit_payload [OF conn, of "''primary''" ?d exampleBrowser noEventProps readyService]
    sent form conn
  show ?thesis by auto
qed

section \<open>The displayed leads\<close>

lemma mset_insertSorted: "mset (insertSorted cmp x xs) = add_mset x (mset xs)"
  by (induction xs) auto

lemma mset_arraySort: "mset (arraySort cmp xs) = mset xs"
  by (induction xs) (auto simp: mset_insertSorted)

lemma matchesFilters_iff:
  "matchesFilters loc f l =
     (searchMatches loc f l \<and> listMatches (filter_status f) (status l) \<and> agentMatches f l \<and>
      listMatches (filter_source f) (source l) \<and>
      listMatches (filter_propertyType f) (propertyType l) \<and> budgetMatches f l \<and>
      listMatches (filter_leadScore f) (leadScore l))"
  by (simp add: matchesFilters_def)

text \<open>
  Claim C10. For every permission filter, all leads, user, filters and sort option:
  the displayed leads are, as a multiset, exactly the permission-filtered leads that
  pass the filter callback (the sort only reorders them). So they are contained in the
  permission-filtered list, with multiplicity and as a set: no lead outside the user's
  permission scope is displayed. And every displayed lead satisfies each of the seven
  filter tests (search, status, assigned agent, source, property type, budget range,
  lead score).
\<close>

theorem displayed_within_permitted:
  "mset (displayedLeads filterLeadsForUser loc leads user f sortBy)
     = mset (filter (matchesFilters loc f) (filterLeadsForUser leads user)) \<and>
   mset (displayedLeads filterLeadsForUser loc leads user f sortBy)
     \<subseteq># mset (userFilteredLeads filterLeadsForUser leads user) \<and>
   set (displayedLeads filterLeadsForUser loc leads user f sortBy)
     \<subseteq> set (userFilteredLeads filterLeadsForUser leads user) \<and>
   (\<forall>l \<in> set (displayedLeads filterLeadsForUser loc leads user f sortBy).
      searchMatches loc f l \<and> listMatches (filter_status f) (status l) \<and> agentMatches f l \<and>
      listMatches (filter_source f) (source l) \<and>
      listMatches (filter_propertyType f) (propertyType l) \<and> budgetMatches f l \<and>
      listMatches (filter_leadScore f) (leadScore l))"
proof -
  let ?u = "userFilteredLeads filterLeadsForUser leads user"
  let ?d = "displayedLeads filterLeadsForUser loc leads user f sortBy"
  have m: "mset ?d = mset (filter (matchesFilters loc f) ?u)"
    by (simp add: displayedLeads_def filteredAndSortedLeads_def mset_arraySort)
  then have s: "set ?d = set (filter (matchesFilters loc f) ?u)"
    by (rule mset_eq_setD)
  have sub: "mset ?d \<subseteq># mset ?u"
    unfolding m by simp
  from m s sub show ?thesis
    by (auto simp: userFilteredLeads_def matchesFilters_iff)
qed

theorem displayed_within_permitted_witness:
  "displayedLeads ownLeadsOnly exampleOps exampleLeads ''agent1'' statusNew CreatedDesc
     = [mkLead ''Cy'' ''New'' ''agent1'' 3, mkLead ''Ann'' ''New'' ''agent1'' 1] \<and>
   userFilteredLeads ownLeadsOnly exampleLeads ''agent1''
     = [mkLead ''Ann'' ''New'' ''agent1'' 1, mkLead ''Cy'' ''New'' ''agent1'' 3,
        mkLead ''Dee'' ''Closed'' ''agent1'' 4] \<and>
   set (displayedLeads ownLeadsOnly exampleOps exampleLeads ''agent1'' statusNew CreatedDesc)
     \<subseteq> set (userFilteredLeads ownLeadsOnly exampleLeads ''agent1'') \<and>
   mkLead ''Bob'' ''New'' ''agent2'' 2
     \<notin> set (displayedLeads ownLeadsOnly exampleOps exampleLeads ''agent1'' statusNew CreatedDesc)"
proof -
  have d: "displayedLeads ownLeadsOnly exampleOps exampleLeads ''agent1'' statusNew CreatedDesc
     = [mkLead ''Cy'' ''New'' ''agent1'' 3, mkLead ''Ann'' ''New'' ''agent1'' 1]"
    by code_simp
  have u: "userFilteredLeads ownLeadsOnly exampleLeads ''agent1''
     = [mkLead ''Ann'' ''New'' ''agent1'' 1, mkLead ''Cy'' ''New'' ''agent1'' 3,
        mkLead ''Dee'' ''Closed'' ''agent1'' 4]"
    by code_simp
  have b: "mkLead ''Bob'' ''New'' ''agent2'' 2
     \<notin> set (userFilteredLeads ownLeadsOnly exampleLeads ''agent1'')"
    unfolding u by (simp add: mkLead_def)
  from displayed_within_permitted
         [of ownLeadsOnly exampleOps exampleLeads "''agent1''" statusNew CreatedDesc] d u b
  show ?thesis by auto
qed

section \<open>The disconnect endpoint answers\<close>

text \<open>
  Claim C9. A request whose authorization header is missing, or does not start with
  \<^verbatim>\<open>Bearer \<close>, or whose token does not verify, is answered with status 401; a request
  whose token verifies is answered with the success message (status 200). In every case
  the handler performs no effect besides the response: it revokes no provider token and
  changes no stored account linkage.
\<close>

theorem disconnect_validation_only:
  "((authorization req = None \<or>
     (\<exists>h. authorization req = Some h \<and>
          (\<not> prefix ''Bearer '' h \<or> \<not> verify (drop 7 h) (JWT_SECRET env))))
    \<longrightarrow> statusCode (fst (POST verify env req)) = 401) \<and>
   ((\<exists>h. authorization req = Some h \<and> prefix ''Bearer '' h \<and>
         verify (drop 7 h) (JWT_SECRET env))
    \<longrightarrow> fst (POST verify env req)
          = \<lparr>statusCode = 200, message = ''Google account disconnected successfully''\<rparr>) \<and>
   snd (POST verify env req) = []"
  by (auto simp: POST_def split: option.splits)

theorem disconnect_validation_only_witness:
  "POST exampleVerify None \<lparr>authorization = Some ''Bearer good''\<rparr>
     = (\<lparr>statusCode = 200, message = ''Google account disconnected successfully''\<rparr>, []) \<and>
   statusCode (fst (POST exampleVerify None \<lparr>authorization = Some ''Bearer bad''\<rparr>)) = 401 \<and>
   statusCode (fst (POST exampleVerify None \<lparr>authorization = Some ''Basic good''\<rparr>)) = 401 \<and>
   statusCode (fst (POST exampleVerify None \<lparr>authorization = None\<rparr>)) = 401"
proof -
  have v: "exampleVerify (drop 7 ''Bearer good'') (JWT_SECRET None)"
          "\<not> exampleVerify (drop 7 ''Bearer bad'') (JWT_SECRET None)"
    by (simp_all add: exampleVerify_def JWT_SECRET_def)
  have p: "prefix ''Bearer '' ''Bearer good''" "prefix ''Bearer '' ''Bearer bad''"
          "\<not> prefix ''Bearer '' ''Basic good''"
    by simp_all
  from disconnect_validation_only [of "\<lparr>authorization = Some ''Bearer good''\<rparr>" exampleVerify None]
       disconnect_validation_only [of "\<lparr>authorization = Some ''Bearer bad''\<rparr>" exampleVerify None]
       disconnect_validation_only [of "\<lparr>authorization = Some ''Basic good''\<rparr>" exampleVerify None]
       disconnect_validation_only [of "\<lparr>authorization = None\<rparr>" exampleVerify None]
       v p
  show ?thesis by (simp add: prod_eq_iff)
qed

section \<open>Decomposing and recomposing the event times\<close>

lemma position_nth:
  "distinct xs \<Longrightarrow> i < length xs \<Longrightarrow> position (xs ! i) xs = Some (int i)"
proof (induction xs arbitrary: i)
  case Nil
  then show ?case by simp
next
  case (Cons x xs)
  show ?case
  proof (cases i)
    case 0
    then show ?thesis by simp
  next
    case (Suc j)
    with Cons.prems have "xs ! j \<noteq> x" "j < length xs" "distinct xs"
      by auto
    with Cons.IH [of j] Suc show ?thesis
      by (simp add: add.commute)
  qed
qed

lemma digitVal_digitChar: "0 \<le> n \<Longrightarrow> n < 10 \<Longrightarrow> digitVal (digitChar n) = Some n"
proof -
  assume n: "0 \<le> n" "n < 10"
  have "distinct decimalDigits" "length decimalDigits = 10"
    by (simp_all add: decimalDigits_def)
  with n position_nth [of decimalDigits "nat n"] show ?thesis
    by (simp add: digitVal_def digitChar_def)
qed

lemma digitsVal_pad2: "0 \<le> n \<Longrightarrow> n < 100 \<Longrightarrow> digitsVal 0 (pad2 n) = Some n"
proof -
  assume n: "0 \<le> n" "n < 100"
  then have a: "0 \<le> n div 10 mod 10" "n div 10 mod 10 < 10" "0 \<le> n mod 10" "n mod 10 < 10"
    by simp_all
  have "n div 10 mod 10 = n div 10" using n by simp
  then have "(n div 10 mod 10) * 10 + n mod 10 = n" by simp
  then show ?thesis
    using a by (simp add: pad2_def digitVal_digitChar)
qed

lemma length_pad2: "length (pad2 n) = 2"
  by (simp add: pad2_def)

lemma digitsVal_consts:
  "digitsVal 0 ''2024'' = Some 2024" "digitsVal 0 ''06'' = Some 6" "digitsVal 0 ''01'' = Some 1"
  by code_simp+

lemma MakeDay_june_first: "MakeDay 2024 6 1 = 19875"
  by code_simp

lemma DaysInMonth_june: "DaysInMonth 2024 6 = 30"
  by code_simp

lemma parse_june_first:
  assumes "0 \<le> h" "h \<le> 23" "0 \<le> mi" "mi \<le> 59"
  shows "parseDate tz (''2024-06-01'' @ ''T'' @ pad2 h @ '':'' @ pad2 mi)
           = Some (1717200000000 + h * 3600000 + mi * 60000 - tz * 60000)"
proof -
  obtain a b where h: "pad2 h = [a, b]" by (simp add: pad2_def)
  obtain c d where mi: "pad2 mi = [c, d]" by (simp add: pad2_def)
  have hv: "digitsVal 0 [a, b] = Some h"
    using digitsVal_pad2 [of h] assms h by simp
  have mv: "digitsVal 0 [c, d] = Some mi"
    using digitsVal_pad2 [of mi] assms mi by simp
  show ?thesis
    unfolding parseDate_def h mi
    using assms hv mv digitsVal_consts
    by (simp add: MakeDay_june_first DaysInMonth_june UTC_def MakeDate_def MakeTime_def
          msPerDay_def msPerMinute_def del: digitsVal.simps)
qed


lemma minutes_of_day:
  "HourFromTime (m * 60000) = m mod 1440 div 60" "MinFromTime (m * 60000) = m mod 60"
proof -
  have "(m * 60000) mod (1440 * 60000) = (m mod 1440) * 60000"
    by (rule mod_mult_mult2)
  then have tw: "TimeWithinDay (m * 60000) = (m mod 1440) * 60000"
    by (simp add: TimeWithinDay_def msPerDay_def)
  have "((m mod 1440) * 60000) div (60 * 60000) = (m mod 1440) div 60"
    by (rule div_mult_mult2) simp
  with tw show "HourFromTime (m * 60000) = m mod 1440 div 60"
    by (simp add: HourFromTime_def)
  show "MinFromTime (m * 60000) = m mod 60"
    by (simp add: MinFromTime_def)
qed

lemma take5_toTimeString:
  "take 5 (toTimeString tz zone (Some t))
     = pad2 (HourFromTime (LocalTime tz t)) @ '':'' @ pad2 (MinFromTime (LocalTime tz t))"
  by (simp add: toTimeString_def length_pad2)

text \<open>The time field of an instant at \<open>k\<close> whole minutes, and what it parses to.\<close>

lemma recompose_minutes:
  "parseDate tz' (''2024-06-01'' @ ''T'' @ take 5 (toTimeString tz zone (Some (k * 60000))))
     = Some (1717200000000 + ((k + tz) mod 1440) * 60000 - tz' * 60000)"
proof -
  let ?m = "k + tz"
  have lt: "LocalTime tz (k * 60000) = ?m * 60000"
    by (simp add: LocalTime_def msPerMinute_def algebra_simps)
  have hb: "0 \<le> ?m mod 1440 div 60" "?m mod 1440 div 60 \<le> 23"
    by simp_all
  have mb: "0 \<le> ?m mod 60" "?m mod 60 \<le> 59"
    by simp_all
  have "?m mod 1440 mod 60 = ?m mod 60"
    by (rule mod_mod_cancel) simp
  then have sum: "(?m mod 1440 div 60) * 60 + ?m mod 60 = ?m mod 1440"
    by (metis div_mult_mod_eq)
  have "(?m mod 1440 div 60) * 3600000 + (?m mod 60) * 60000
          = ((?m mod 1440 div 60) * 60 + ?m mod 60) * 60000"
    by (simp add: algebra_simps)
  with sum have eq: "(?m mod 1440 div 60) * 3600000 + (?m mod 60) * 60000 = (?m mod 1440) * 60000"
    by simp
  show ?thesis
    unfolding take5_toTimeString lt minutes_of_day
    using parse_june_first [OF hb mb, of tz'] eq by simp
qed

text \<open>The two time values of the stored event are the instants the claim names.\<close>

lemma meetingEvent_instants:
  "map_option toISOString (startDateTime meetingEvent) = Some ''2024-06-01T09:00:00.000Z''"
  "map_option toISOString (endDateTime meetingEvent) = Some ''2024-06-01T10:00:00.000Z''"
  by code_simp+

lemma date_field_example:
  "takeWhile (\<lambda>c. c \<noteq> CHR ''T'') (toISOString 1717232400000) = ''2024-06-01''"
  by (simp add: toISOString_example)

lemma populateForm_meetingEvent:
  "populateForm w \<lparr>lead = None, event = Some meetingEvent, onEventCreated = True,
                   onEventUpdated = True\<rparr> prev
     = Inr \<lparr>title = ''Viewing'', description = [], date = ''2024-06-01'',
            startTime = take 5 (toTimeString (tzOffset w) (tzDisplayName w) (Some 1717232400000)),
            endTime = take 5 (toTimeString (tzOffset w) (tzDisplayName w) (Some 1717236000000)),
            location = [], attendees = [], reminders = [10]\<rparr>"
  by (simp add: populateForm_def meetingEvent_def date_field_example)



lemma start_minute_of_day: "(28620540 + tz) mod 1440 = (540 + tz) mod (1440::int)"
proof -
  have "(28620540 + tz) mod 1440 = (28620540 mod 1440 + tz) mod 1440"
    by (rule mod_add_left_eq [symmetric])
  then show ?thesis by simp
qed

lemma end_minute_of_day: "(28620600 + tz) mod 1440 = (600 + tz) mod (1440::int)"
proof -
  have "(28620600 + tz) mod 1440 = (28620600 mod 1440 + tz) mod 1440"
    by (rule mod_add_left_eq [symmetric])
  then show ?thesis by simp
qed

lemma recompose_start:
  "parseDate tz' (''2024-06-01'' @ ''T'' @ take 5 (toTimeString tz zone (Some 1717232400000)))
     = Some (1717200000000 + ((540 + tz) mod 1440) * 60000 - tz' * 60000)"
  using recompose_minutes [of tz' tz zone 28620540] by (simp add: start_minute_of_day)


lemma recompose_end:
  "parseDate tz' (''2024-06-01'' @ ''T'' @ take 5 (toTimeString tz zone (Some 1717236000000)))
     = Some (1717200000000 + ((600 + tz) mod 1440) * 60000 - tz' * 60000)"
  using recompose_minutes [of tz' tz zone 28620600] by (simp add: end_minute_of_day)

lemma roundTrip_meetingEvent:
  "roundTrip w1 w2 meetingEvent prev =
     Some (Some (1717200000000 + ((540 + tzOffset w1) mod 1440) * 60000 - tzOffset w2 * 60000),
           Some (1717200000000 + ((600 + tzOffset w1) mod 1440) * 60000 - tzOffset w2 * 60000))"
  unfolding roundTrip_def populateForm_meetingEvent startDateTimeOf_def endDateTimeOf_def
  using recompose_start [of "tzOffset w2" "tzOffset w1" "tzDisplayName w1"]
        recompose_end [of "tzOffset w2" "tzOffset w1" "tzDisplayName w1"]
  by simp

lemma mod_day_id: "(x mod 1440 = x) = (0 \<le> x \<and> x < (1440::int))"
proof
  assume "x mod 1440 = x"
  moreover have "0 \<le> x mod 1440" "x mod 1440 < 1440" by simp_all
  ultimately show "0 \<le> x \<and> x < 1440" by simp
next
  assume "0 \<le> x \<and> x < 1440"
  then show "x mod 1440 = x" by simp
qed

text \<open>
  Claim C3, amended. For the stored event from 2024-06-01T09:00:00Z to
  2024-06-01T10:00:00Z: in the zone UTC the round trip gives back the two instants. In
  a runtime zone with offset \<open>tz\<close> minutes (decomposition and recomposition in the same
  zone, as in the form) it gives them back exactly when \<open>-540 \<le> tz < 840\<close>, that is when
  both instants fall on the start's UTC date in local time; so it does for most zones
  other than UTC. When the fields were decomposed in UTC and are recomposed in a zone
  with offset \<open>tz\<close>, both instants are moved by \<open>tz\<close> minutes, hence differ whenever
  \<open>tz \<noteq> 0\<close>.
\<close>

theorem roundTrip_zones:
  "(tzOffset w = 0 \<longrightarrow>
      roundTrip w w meetingEvent prev
        = Some (startDateTime meetingEvent, endDateTime meetingEvent)) \<and>
   (roundTrip w w meetingEvent prev = Some (startDateTime meetingEvent, endDateTime meetingEvent))
     = (- 540 \<le> tzOffset w \<and> tzOffset w < 840) \<and>
   (tzOffset w1 = 0 \<longrightarrow>
      roundTrip w1 w2 meetingEvent prev
        = Some (Some (1717232400000 - tzOffset w2 * 60000),
                Some (1717236000000 - tzOffset w2 * 60000)))"
proof -
  let ?tz = "tzOffset w"
  have sa: "(1717200000000 + ((540 + ?tz) mod 1440) * 60000 - ?tz * 60000 = 1717232400000)
            = ((540 + ?tz) mod 1440 = 540 + ?tz)"
    by linarith
  have sb: "(1717200000000 + ((600 + ?tz) mod 1440) * 60000 - ?tz * 60000 = 1717236000000)
            = ((600 + ?tz) mod 1440 = 600 + ?tz)"
    by linarith
  have "(roundTrip w w meetingEvent prev = Some (startDateTime meetingEvent, endDateTime meetingEvent))
     = ((540 + ?tz) mod 1440 = 540 + ?tz \<and> (600 + ?tz) mod 1440 = 600 + ?tz)"
    unfolding roundTrip_meetingEvent using sa sb by (simp add: meetingEvent_def)
  also have "\<dots> = (- 540 \<le> ?tz \<and> ?tz < 840)"
    unfolding mod_day_id by linarith
  finally have same: "(roundTrip w w meetingEvent prev
       = Some (startDateTime meetingEvent, endDateTime meetingEvent))
     = (- 540 \<le> ?tz \<and> ?tz < 840)" .
  have cross: "tzOffset w1 = 0 \<Longrightarrow> roundTrip w1 w2 meetingEvent prev
        = Some (Some (1717232400000 - tzOffset w2 * 60000),
                Some (1717236000000 - tzOffset w2 * 60000))"
    unfolding roundTrip_meetingEvent by simp
  from same cross show ?thesis by simp
qed

theorem roundTrip_zones_witness:
  "tzOffset exampleBrowser = 0 \<and>
   roundTrip exampleBrowser exampleBrowser meetingEvent initialFormData
     = Some (Some 1717232400000, Some 1717236000000) \<and>
   tzOffset honoluluBrowser = - 600 \<and>
   roundTrip honoluluBrowser honoluluBrowser meetingEvent initialFormData
     = Some (Some 1717318800000, Some 1717236000000) \<and>
   roundTrip honoluluBrowser honoluluBrowser meetingEvent initialFormData
     \<noteq> Some (startDateTime meetingEvent, endDateTime meetingEvent) \<and>
   roundTrip exampleBrowser honoluluBrowser meetingEvent initialFormData
     = Some (Some 1717268400000, Some 1717272000000)"
proof -
  have z: "tzOffset exampleBrowser = 0" "tzOffset honoluluBrowser = - 600"
    by (simp_all add: exampleBrowser_def honoluluBrowser_def)
  have h: "roundTrip honoluluBrowser honoluluBrowser meetingEvent initialFormData
     = Some (Some 1717318800000, Some 1717236000000)"
    by code_simp
  have m: "startDateTime meetingEvent = Some 1717232400000"
          "endDateTime meetingEvent = Some 1717236000000"
    by (simp_all add: meetingEvent_def)
  from roundTrip_zones [of exampleBrowser initialFormData exampleBrowser honoluluBrowser]
       roundTrip_zones [of honoluluBrowser initialFormData exampleBrowser honoluluBrowser]
       z h m
  show ?thesis by simp
qed

text \<open>
  The claim as written says that the round trip yields a different instant whenever
  the runtime zone differs from UTC. One hour east of UTC it yields the same two
  instants.
\<close>

theorem roundTrip_other_zone_counterexample:
  "tzOffset lagosBrowser \<noteq> 0 \<and>
   roundTrip lagosBrowser lagosBrowser meetingEvent initialFormData
     = Some (Some 1717232400000, Some 1717236000000) \<and>
   startDateTime meetingEvent = Some 1717232400000 \<and>
   endDateTime meetingEvent = Some 1717236000000"
  by code_simp

end
